theory Spec2Isabelle
  imports Complex_Main
begin

section \<open>Python strings\<close>

text \<open>
  A Python \<open>str\<close> is a sequence of Unicode code points; it is modelled as a list of
  natural numbers. \<open>asc\<close> turns an ASCII literal into such a list; code points outside
  ASCII (and the backslash, the apostrophe and the line feed) are written as numbers.
\<close>

type_synonym ustr = "nat list"

definition asc :: "string \<Rightarrow> ustr" where
  "asc s = map of_char s"

text \<open>\<open>str(n)\<close> of a non-negative integer, as the f-strings format it.\<close>

function str_nat :: "nat \<Rightarrow> ustr" where
  "str_nat n = (if n < 10 then [48 + n] else str_nat (n div 10) @ [48 + n mod 10])"
  by pat_completeness auto
termination
  by (relation "measure id") auto

declare str_nat.simps [simp del]

definition str_int :: "int \<Rightarrow> ustr" where
  "str_int i = (if i < 0 then 45 # str_nat (nat (- i)) else str_nat (nat i))"

text \<open>
  \<open>str.strip()\<close> removes the code points for which \<open>str.isspace()\<close> holds from both
  ends.
\<close>

definition py_isspace :: "nat \<Rightarrow> bool" where
  "py_isspace c =
     ((9 \<le> c \<and> c \<le> 13) \<or> (28 \<le> c \<and> c \<le> 32) \<or> c = 0x85 \<or> c = 0xA0 \<or> c = 0x1680
      \<or> (0x2000 \<le> c \<and> c \<le> 0x200A) \<or> c = 0x2028 \<or> c = 0x2029 \<or> c = 0x202F
      \<or> c = 0x205F \<or> c = 0x3000)"

definition py_strip :: "ustr \<Rightarrow> ustr" where
  "py_strip s = rev (dropWhile py_isspace (rev (dropWhile py_isspace s)))"

section \<open>The regular expressions of the \<open>re\<close> module that the program uses\<close>

text \<open>
  Every pattern of the program is a sequence of single-character classes, each taken once,
  one or more times greedily (\<open>+\<close>), or zero or more times lazily (\<open>*?\<close>), some of
  them inside a capturing group. \<open>Digit\<close> is \<open>\d\<close>, which on a \<open>str\<close> pattern
  is the ASCII digits and the other decimal digits of Unicode; the latter come from the
  Unicode database of the Python runtime and are the parameter \<open>nd\<close>. \<open>Alnum\<close> is
  \<open>[a-zA-Z0-9]\<close>, \<open>NotChr 125\<close> is \<open>[^}]\<close>, \<open>Dot\<close> is \<open>.\<close> (any code
  point but the line feed) and \<open>DotAll\<close> is \<open>.\<close> under \<open>re.DOTALL\<close>.
\<close>

datatype cls = Chr nat | NotChr nat | Digit | Alnum | Dot | DotAll

fun cls_ok :: "(nat \<Rightarrow> bool) \<Rightarrow> cls \<Rightarrow> nat \<Rightarrow> bool" where
  "cls_ok nd (Chr a) c = (c = a)"
| "cls_ok nd (NotChr a) c = (c \<noteq> a)"
| "cls_ok nd Digit c = ((48 \<le> c \<and> c \<le> 57) \<or> (128 \<le> c \<and> nd c))"
| "cls_ok nd Alnum c =
     ((97 \<le> c \<and> c \<le> 122) \<or> (65 \<le> c \<and> c \<le> 90) \<or> (48 \<le> c \<and> c \<le> 57))"
| "cls_ok nd Dot c = (c \<noteq> 10)"
| "cls_ok nd DotAll c = True"

datatype quant = Once | Many1 | Lazy0

datatype node = Match quant cls | Group quant cls

fun countdown :: "nat \<Rightarrow> nat list" where
  "countdown 0 = []"
| "countdown (Suc n) = Suc n # countdown n"

text \<open>
  The numbers of code points a quantified class may take at the head of \<open>s\<close>, in the
  order in which the backtracking matcher tries them: the longest first for \<open>+\<close>, the
  shortest first for \<open>*?\<close>.
\<close>

fun lengths :: "(nat \<Rightarrow> bool) \<Rightarrow> quant \<Rightarrow> cls \<Rightarrow> ustr \<Rightarrow> nat list" where
  "lengths nd Once k s = (case s of [] \<Rightarrow> [] | c # r \<Rightarrow> if cls_ok nd k c then [1] else [])"
| "lengths nd Many1 k s = countdown (length (takeWhile (cls_ok nd k) s))"
| "lengths nd Lazy0 k s = [0 ..< Suc (length (takeWhile (cls_ok nd k) s))]"

fun first_match :: "nat list \<Rightarrow> (nat \<Rightarrow> 'a option) \<Rightarrow> 'a option" where
  "first_match [] f = None"
| "first_match (n # ns) f = (case f n of Some r \<Rightarrow> Some r | None \<Rightarrow> first_match ns f)"

text \<open>
  \<open>rx_match nd p s\<close> matches the pattern \<open>p\<close> at the head of \<open>s\<close>: the captured
  groups in order and the number of code points consumed, or \<open>None\<close>.
\<close>

fun rx_match :: "(nat \<Rightarrow> bool) \<Rightarrow> node list \<Rightarrow> ustr \<Rightarrow> (ustr list \<times> nat) option" where
  "rx_match nd [] s = Some ([], 0)"
| "rx_match nd (Match q k # ns) s =
     first_match (lengths nd q k s)
       (\<lambda>n. case rx_match nd ns (drop n s) of
               None \<Rightarrow> None
             | Some (gs, m) \<Rightarrow> Some (gs, n + m))"
| "rx_match nd (Group q k # ns) s =
     first_match (lengths nd q k s)
       (\<lambda>n. case rx_match nd ns (drop n s) of
               None \<Rightarrow> None
             | Some (gs, m) \<Rightarrow> Some (take n s # gs, n + m))"

text \<open>
  \<open>re.sub(pattern, repl, string)\<close>: the leftmost non-overlapping matches, scanned from
  left to right, each replaced by \<open>repl\<close> applied to its groups. No pattern of the
  program matches the empty string (each begins with a class taken at least once), so the
  branches for an empty match are never taken by it; they follow Python 3.7 and later.
\<close>

fun re_sub :: "(nat \<Rightarrow> bool) \<Rightarrow> node list \<Rightarrow> (ustr list \<Rightarrow> ustr) \<Rightarrow> ustr \<Rightarrow> ustr" where
  "re_sub nd p f [] = (case rx_match nd p [] of None \<Rightarrow> [] | Some (gs, n) \<Rightarrow> f gs)"
| "re_sub nd p f (c # s) =
     (case rx_match nd p (c # s) of
        None \<Rightarrow> c # re_sub nd p f s
      | Some (gs, n) \<Rightarrow>
          if n = 0 then f gs @ c # re_sub nd p f s
          else f gs @ re_sub nd p f (drop (n - 1) s))"

text \<open>A pattern that is a literal string.\<close>

definition lit :: "string \<Rightarrow> node list" where
  "lit s = map (\<lambda>c. Match Once (Chr (of_char c))) s"

text \<open>\<open>match.group(i)\<close> for \<open>i \<ge> 1\<close>.\<close>

definition group :: "ustr list \<Rightarrow> nat \<Rightarrow> ustr" where
  "group m i = (if 0 < i \<and> i \<le> length m then m ! (i - 1) else [])"

text \<open>A replacement string: literal text and the group references \<open>\1\<close>, \<open>\2\<close>.\<close>

datatype part = Txt ustr | Ref nat

fun expand :: "part list \<Rightarrow> ustr list \<Rightarrow> ustr" where
  "expand [] m = []"
| "expand (Txt t # ps) m = t @ expand ps m"
| "expand (Ref i # ps) m = group m i @ expand ps m"

section \<open>The worker thread and its environment\<close>

datatype input_files = SingleFile ustr | FileList "ustr list"

record margins =
  m_top :: int
  m_right :: int
  m_bottom :: int
  m_left :: int

text \<open>
  The fields of \<open>ConvertThread\<close>. The widgets are read for their current value only
  (\<open>text()\<close>, \<open>currentText()\<close>, \<open>value()\<close>), so each is modelled by that value.
\<close>

record convert_thread =
  input_files :: input_files
  output_dir :: ustr
  header_edit :: ustr
  footer_edit :: ustr
  page_size_combo :: ustr
  margin_spinboxes :: margins
  encoding_combo :: ustr
  is_batch_mode :: bool

datatype write_result = Written | OpenFailed ustr | WriteFailed ustr

datatype pdf_result = PdfWritten | PdfFailed ustr bool

datatype optval = B bool | S ustr

text \<open>
  What the program calls and does not define: the Markdown library (with the two extension
  lists the program configures), \<open>os.path\<close>, the file system, \<open>pdfkit\<close> and the
  check of the external tool. An exception is the left summand, carrying \<open>str(e)\<close>.
  \<open>PdfFailed e kept\<close> is a failed rendering; \<open>kept\<close> tells whether the tool left an
  output file behind. \<open>WriteFailed\<close> is a write that fails after the file was opened
  for writing, hence created.
\<close>

record world =
  unicode_decimal :: "nat \<Rightarrow> bool"
  markdown_toc :: "ustr \<Rightarrow> ustr + ustr"
  markdown_plain :: "ustr \<Rightarrow> ustr + ustr"
  validate_wkhtmltopdf :: "bool \<times> ustr"
  os_path_basename :: "ustr \<Rightarrow> ustr"
  os_path_splitext :: "ustr \<Rightarrow> ustr \<times> ustr"
  os_path_join :: "ustr \<Rightarrow> ustr \<Rightarrow> ustr"
  os_path_abspath :: "ustr \<Rightarrow> ustr"
  open_read :: "ustr \<Rightarrow> ustr + ustr"
  open_write :: "ustr \<Rightarrow> ustr \<Rightarrow> write_result"
  from_string :: "ustr \<Rightarrow> ustr \<Rightarrow> (ustr \<times> optval) list \<Rightarrow> pdf_result"
  os_remove :: "ustr \<Rightarrow> ustr option"

datatype event = Progress int | LogMessage ustr | Finished | Error ustr

datatype level = ERROR | WARNING

text \<open>
  The state the thread changes: the paths that exist on disk, the signals emitted so far
  (oldest first) and the records written to the logger.
\<close>

record state =
  files :: "ustr set"
  signals :: "event list"
  logged :: "(level \<times> ustr) list"

definition emit :: "event \<Rightarrow> state \<Rightarrow> state" where
  "emit e s = s\<lparr>signals := signals s @ [e]\<rparr>"

definition logger :: "level \<Rightarrow> ustr \<Rightarrow> state \<Rightarrow> state" where
  "logger l msg s = s\<lparr>logged := logged s @ [(l, msg)]\<rparr>"

section \<open>\<open>simplify_math_formula\<close>\<close>

definition frac_command_replacer :: "ustr list \<Rightarrow> ustr" where
  \<open>frac_command_replacer m =
     (let numerator = group m 1; denominator = group m 2
      in asc ''<span class="fraction"><span class="numerator">'' @ numerator
         @ asc ''</span><span>'' @ denominator @ asc ''</span></span>'')\<close>

definition sum_replacer :: "ustr list \<Rightarrow> ustr" where
  "sum_replacer m =
     (let lower = group m 1; upper = group m 2
      in [0x2211] @ asc ''<sub>'' @ lower @ asc ''</sub><sup>'' @ upper @ asc ''</sup>'')"

definition int_replacer :: "ustr list \<Rightarrow> ustr" where
  "int_replacer m =
     (let lower = group m 1; upper = group m 2
      in [0x222B] @ asc ''<sub>'' @ lower @ asc ''</sub><sup>'' @ upper @ asc ''</sup>'')"

definition sqrt_replacer :: "ustr list \<Rightarrow> ustr" where
  "sqrt_replacer m =
     (let index = group m 1; body = group m 2
      in asc ''<sup>'' @ index @ asc ''</sup>'' @ [0x221A] @ body)"

text \<open>
  The dictionary \<open>replacements\<close>, in the order of its literal (the order in which the
  loop applies it). A pattern that begins with a backslash begins with \<open>Chr 92\<close>.
\<close>

definition replacements :: "(node list \<times> part list) list" where
  \<open>replacements =
   [(Match Once (Chr 92) # lit ''int'', [Txt [0x222B]]),
    (Match Once (Chr 92) # lit ''sum'', [Txt [0x2211]]),
    (Match Once (Chr 92) # lit ''prod'', [Txt [0x220F]]),
    (Match Once (Chr 92) # lit ''infty'', [Txt [0x221E]]),
    (Match Once (Chr 92) # lit ''pm'', [Txt [0xB1]]),
    (Match Once (Chr 92) # lit ''times'', [Txt [0xD7]]),
    (Match Once (Chr 92) # lit ''cdot'', [Txt [0xB7]]),
    (Match Once (Chr 92) # lit ''leq'', [Txt [0x2264]]),
    (Match Once (Chr 92) # lit ''geq'', [Txt [0x2265]]),
    (Match Once (Chr 92) # lit ''neq'', [Txt [0x2260]]),
    (Match Once (Chr 92) # lit ''approx'', [Txt [0x2248]]),
    (Match Once (Chr 92) # lit ''sin'', [Txt (asc ''sin'')]),
    (Match Once (Chr 92) # lit ''cos'', [Txt (asc ''cos'')]),
    (Match Once (Chr 92) # lit ''tan'', [Txt (asc ''tan'')]),
    (Match Once (Chr 92) # lit ''log'', [Txt (asc ''log'')]),
    (Match Once (Chr 92) # lit ''ln'', [Txt (asc ''ln'')]),
    (Match Once (Chr 92) # lit ''lim'', [Txt (asc ''lim'')]),
    (Match Once (Chr 92) # lit ''bar{'' @ [Group Many1 (NotChr 125)] @ lit ''}'',
       [Txt (asc ''<span style="text-decoration: overline;">''), Ref 1, Txt (asc ''</span>'')]),
    (Match Once (Chr 92) # lit ''partial'', [Txt [0x2202]]),
    (Match Once (Chr 92) # lit ''rightarrow'', [Txt [0x2192]]),
    (Match Once (Chr 92) # lit ''vec{'' @ [Group Many1 (NotChr 125)] @ lit ''}'',
       [Txt (asc ''<span style="text-decoration: overline;">''), Ref 1, Txt (asc ''</span>'')]),
    (Match Once (Chr 92) # lit ''begin{pmatrix}'', [Txt (asc ''('')]),
    (Match Once (Chr 92) # lit ''end{pmatrix}'', [Txt (asc '')'')]),
    (Match Once (Chr 92) # lit ''det'', [Txt (asc ''det'')]),
    (Match Once (Chr 92) # lit ''alpha'', [Txt [0x3B1]]),
    (Match Once (Chr 92) # lit ''beta'', [Txt [0x3B2]]),
    (Match Once (Chr 92) # lit ''gamma'', [Txt [0x3B3]]),
    (Match Once (Chr 92) # lit ''delta'', [Txt [0x3B4]]),
    (Match Once (Chr 92) # lit ''theta'', [Txt [0x3B8]]),
    (Match Once (Chr 92) # lit ''lambda'', [Txt [0x3BB]]),
    (Match Once (Chr 92) # lit ''mu'', [Txt [0x3BC]]),
    (Match Once (Chr 92) # lit ''pi'', [Txt [0x3C0]]),
    (Match Once (Chr 92) # lit ''sigma'', [Txt [0x3C3]]),
    (Match Once (Chr 92) # lit ''phi'', [Txt [0x3C6]]),
    (Match Once (Chr 92) # lit ''omega'', [Txt [0x3C9]]),
    (Match Once (Chr 92) # lit ''to'', [Txt [0x2192]]),
    (Match Once (Chr 92) # lit ''in'', [Txt [0x2208]]),
    (Match Once (Chr 92) # lit ''subset'', [Txt [0x2282]]),
    (Match Once (Chr 92) # lit ''cup'', [Txt [0x222A]]),
    (Match Once (Chr 92) # lit ''cap'', [Txt [0x2229]]),
    (Match Once (Chr 92) # lit ''sqrt'', [Txt [0x221A]]),
    (lit ''e^x'', [Txt [101, 0x2E3]]),
    (lit ''^2'', [Txt [0xB2]]),
    (lit ''^3'', [Txt [0xB3]]),
    (lit ''_{'' @ [Group Many1 (NotChr 125)] @ lit ''}'',
       [Txt (asc ''<sub>''), Ref 1, Txt (asc ''</sub>'')]),
    (lit ''_'' @ [Group Once Alnum],
       [Txt (asc ''<sub>''), Ref 1, Txt (asc ''</sub>'')]),
    (lit ''^{'' @ [Group Many1 (NotChr 125)] @ lit ''}'',
       [Txt (asc ''<sup>''), Ref 1, Txt (asc ''</sup>'')]),
    (lit ''^'' @ [Group Once Alnum],
       [Txt (asc ''<sup>''), Ref 1, Txt (asc ''</sup>'')])]\<close>

text \<open>
  The two patterns for a subscript followed by a superscript and the reverse, which the
  function applies twice: \<open>_\{([^}]+)\}\^\{([^}]+)\}\<close> and \<open>\^\{([^}]+)\}_\{([^}]+)\}\<close>.
\<close>

definition sub_sup :: "node list" where
  "sub_sup = lit ''_{'' @ [Group Many1 (NotChr 125)] @ lit ''}^{''
             @ [Group Many1 (NotChr 125)] @ lit ''}''"

definition sup_sub :: "node list" where
  "sup_sub = lit ''^{'' @ [Group Many1 (NotChr 125)] @ lit ''}_{''
             @ [Group Many1 (NotChr 125)] @ lit ''}''"

definition simplify_math_formula :: "world \<Rightarrow> convert_thread \<Rightarrow> ustr \<Rightarrow> ustr" where
  "simplify_math_formula w self formula =
    (let nd = unicode_decimal w;
         formula = re_sub nd (lit ''e^-'' @ [Group Many1 Alnum])
                     (expand [Txt (asc ''e<sup>-''), Ref 1, Txt (asc ''</sup>'')]) formula;
         formula = re_sub nd (lit ''e^{'' @ [Group Many1 (NotChr 125)] @ lit ''}'')
                     (expand [Txt (asc ''e<sup>''), Ref 1, Txt (asc ''</sup>'')]) formula;
         formula = re_sub nd sub_sup
                     (expand [Txt (asc ''<sub>''), Ref 1, Txt (asc ''</sub><sup>''), Ref 2,
                              Txt (asc ''</sup>'')]) formula;
         formula = re_sub nd sup_sub
                     (expand [Txt (asc ''<sup>''), Ref 1, Txt (asc ''</sup><sub>''), Ref 2,
                              Txt (asc ''</sub>'')]) formula;
         formula = re_sub nd (Match Once (Chr 92) # lit ''frac{'' @ [Group Many1 (NotChr 125)]
                               @ lit ''}{'' @ [Group Many1 (NotChr 125)] @ lit ''}'')
                     frac_command_replacer formula;
         formula = re_sub nd ([Group Many1 Digit] @ lit ''/'' @ [Group Many1 Digit])
                     (expand [Txt (asc ''<sup>''), Ref 1, Txt (asc ''</sup>&frasl;<sub>''), Ref 2,
                              Txt (asc ''</sub>'')]) formula;
         formula = re_sub nd (Match Once (Chr 92) # lit ''sum_{'' @ [Group Many1 (NotChr 125)]
                               @ lit ''}^{'' @ [Group Many1 (NotChr 125)] @ lit ''}'')
                     sum_replacer formula;
         formula = re_sub nd (Match Once (Chr 92) # lit ''int_{'' @ [Group Many1 (NotChr 125)]
                               @ lit ''}^{'' @ [Group Many1 (NotChr 125)] @ lit ''}'')
                     int_replacer formula;
         formula = re_sub nd (Match Once (Chr 92) # lit ''sqrt['' @ [Group Many1 Digit]
                               @ lit '']{'' @ [Group Many1 (NotChr 125)] @ lit ''}'')
                     sqrt_replacer formula;
         formula = re_sub nd sub_sup
                     (expand [Txt (asc ''<sub>''), Ref 1, Txt (asc ''</sub><sup>''), Ref 2,
                              Txt (asc ''</sup>'')]) formula;
         formula = re_sub nd sup_sub
                     (expand [Txt (asc ''<sup>''), Ref 1, Txt (asc ''</sup><sub>''), Ref 2,
                              Txt (asc ''</sub>'')]) formula;
         result = formula;
         result = foldl (\<lambda>result (pattern, replacement).
                           re_sub nd pattern (expand replacement) result) result replacements;
         result = re_sub nd (lit ''H_2O'') (expand [Txt [72, 0x2082, 79]]) result;
         result = re_sub nd (lit ''H_2'') (expand [Txt [72, 0x2082]]) result;
         result = re_sub nd (lit ''O_2'') (expand [Txt [79, 0x2082]]) result;
         result = re_sub nd (lit ''CH_4'') (expand [Txt [67, 72, 0x2084]]) result;
         result = re_sub nd (lit ''CO_2'') (expand [Txt [67, 79, 0x2082]]) result
     in result)"

section \<open>\<open>process_math_formulas\<close> and \<open>convert_markdown_with_math\<close>\<close>

definition inline_math_replacer :: "world \<Rightarrow> convert_thread \<Rightarrow> ustr list \<Rightarrow> ustr" where
  \<open>inline_math_replacer w self m =
     (let formula = group m 1;
          formula = simplify_math_formula w self formula
      in asc ''<span class="math-inline">'' @ formula @ asc ''</span>'')\<close>

definition block_math_replacer :: "world \<Rightarrow> convert_thread \<Rightarrow> ustr list \<Rightarrow> ustr" where
  \<open>block_math_replacer w self m =
     (let formula = group m 1;
          formula = simplify_math_formula w self formula
      in asc ''<div class="math-display">'' @ formula @ asc ''</div>'')\<close>

definition inline_pattern :: "node list" where
  "inline_pattern = lit ''$'' @ [Group Lazy0 Dot] @ lit ''$''"

definition block_pattern :: "node list" where
  "block_pattern = lit ''$$'' @ [Group Lazy0 DotAll] @ lit ''$$''"

text \<open>
  The local \<open>processed_content\<close> of \<open>process_math_formulas\<close> after its two
  substitutions, in the order of the source: the inline pattern on the original Markdown,
  then the block pattern on the result.
\<close>

definition processed_content :: "world \<Rightarrow> convert_thread \<Rightarrow> ustr \<Rightarrow> ustr" where
  "processed_content w self original_markdown =
     (let processed_content =
            re_sub (unicode_decimal w) inline_pattern (inline_math_replacer w self)
              original_markdown;
          processed_content =
            re_sub (unicode_decimal w) block_pattern (block_math_replacer w self)
              processed_content
      in processed_content)"

definition process_math_formulas :: "world \<Rightarrow> convert_thread \<Rightarrow> ustr \<Rightarrow> ustr \<Rightarrow> ustr" where
  "process_math_formulas w self html_content original_markdown =
     (case markdown_plain w (processed_content w self original_markdown) of
        Inr final_html \<Rightarrow> final_html
      | Inl e \<Rightarrow> html_content)"

definition convert_markdown_with_math ::
    "world \<Rightarrow> convert_thread \<Rightarrow> ustr \<Rightarrow> state \<Rightarrow> ustr \<times> state" where
  "convert_markdown_with_math w self original_markdown s =
     (case markdown_toc w original_markdown of
        Inr html_content \<Rightarrow> (process_math_formulas w self html_content original_markdown, s)
      | Inl e \<Rightarrow>
          (asc ''<pre>'' @ original_markdown @ asc ''</pre>'',
           logger ERROR (asc ''Markdown'' @ [0x8F6C, 0x6362, 0x5931, 0x8D25] @ asc '': '' @ e) s))"

section \<open>HTML templates and renderer options\<close>

definition create_html_template :: "ustr \<Rightarrow> ustr" where
  \<open>create_html_template html_content =
     [10] @
     asc ''        <!DOCTYPE html>'' @ [10] @
     asc ''        <html>'' @ [10] @
     asc ''        <head>'' @ [10] @
     asc ''            <meta charset="utf-8">'' @ [10] @
     asc ''            <style>'' @ [10] @
     asc ''                @charset "UTF-8";'' @ [10] @
     asc ''                '' @ [10] @
     asc ''                /* '' @ [0x6838, 0x5FC3, 0x5B57, 0x4F53, 0x914D, 0x7F6E] @ asc '' - '' @ [0x786E, 0x4FDD, 0x6240, 0x6709, 0x5143, 0x7D20, 0x4F7F, 0x7528, 0x76F8, 0x540C, 0x5B57, 0x4F53] @ asc '' */'' @ [10] @
     asc ''                body, h1, h2, h3, h4, h5, h6, p, div, span, td, th, li {'' @ [10] @
     asc ''                    font-family: '' @ [10] @
     asc ''                        "Segoe UI Emoji",           /* Windows Emoji'' @ [0x5B57, 0x4F53] @ asc '' */'' @ [10] @
     asc ''                        "Apple Color Emoji",        /* macOS Emoji'' @ [0x5B57, 0x4F53] @ asc '' */ '' @ [10] @
     asc ''                        "Noto Color Emoji",         /* Google'' @ [0x8DE8, 0x5E73, 0x53F0] @ asc ''Emoji'' @ [0x5B57, 0x4F53] @ asc '' */'' @ [10] @
     asc ''                        "Segoe UI Symbol",          /* Windows'' @ [0x7B26, 0x53F7, 0x5B57, 0x4F53] @ asc '' */'' @ [10] @
     asc ''                        "Symbola",                  /* '' @ [0x4E13, 0x4E1A, 0x7B26, 0x53F7, 0x5B57, 0x4F53] @ asc '' */'' @ [10] @
     asc ''                        "DejaVu Sans",              /* '' @ [0x5F00, 0x6E90, 0x5B57, 0x4F53, 0xFF0C, 0x826F, 0x597D] @ asc ''Unicode'' @ [0x652F, 0x6301] @ asc '' */'' @ [10] @
     asc ''                        "FreeSans",                 /* GNU FreeFont'' @ [0x7CFB, 0x5217] @ asc '' */'' @ [10] @
     asc ''                        "Microsoft YaHei",          /* '' @ [0x5FAE, 0x8F6F, 0x96C5, 0x9ED1] @ asc '' */'' @ [10] @
     asc ''                        "SimHei",                   /* '' @ [0x9ED1, 0x4F53] @ asc '' */'' @ [10] @
     asc ''                        Arial,                      /* '' @ [0x57FA, 0x7840, 0x897F, 0x6587, 0x5B57, 0x4F53] @ asc '' */'' @ [10] @
     asc ''                        sans-serif;                 /* '' @ [0x901A, 0x7528, 0x5907, 0x9009] @ asc '' */'' @ [10] @
     asc ''                }'' @ [10] @
     asc ''                '' @ [10] @
     asc ''                body { '' @ [10] @
     asc ''                    margin: 40px;'' @ [10] @
     asc ''                    line-height: 1.6;'' @ [10] @
     asc ''                    font-size: 16px;'' @ [10] @
     asc ''                }'' @ [10] @
     asc ''                '' @ [10] @
     asc ''                /* '' @ [0x5F3A, 0x5236, 0x6240, 0x6709, 0x6807, 0x9898, 0x5143, 0x7D20, 0x4F7F, 0x7528] @ asc ''Emoji'' @ [0x53CB, 0x597D, 0x7684, 0x5B57, 0x4F53] @ asc '' */'' @ [10] @
     asc ''                h1, h2, h3, h4, h5, h6 {'' @ [10] @
     asc ''                    font-family: inherit !important;'' @ [10] @
     asc ''                    font-weight: bold;'' @ [10] @
     asc ''                    color: #333333;'' @ [10] @
     asc ''                    margin-top: 24px;'' @ [10] @
     asc ''                    margin-bottom: 16px;'' @ [10] @
     asc ''                    /* '' @ [0x5F3A, 0x5236, 0x542F, 0x7528, 0x5B57, 0x4F53, 0x7279, 0x6027] @ asc '' */'' @ [10] @
     asc ''                    font-feature-settings: "liga" 1, "dlig" 1 !important;'' @ [10] @
     asc ''                    -webkit-font-smoothing: antialiased !important;'' @ [10] @
     asc ''                    -moz-osx-font-smoothing: grayscale !important;'' @ [10] @
     asc ''                }'' @ [10] @
     asc ''                '' @ [10] @
     asc ''                /* '' @ [0x7279, 0x522B, 0x9488, 0x5BF9, 0x5305, 0x542B] @ asc ''Emoji'' @ [0x7684, 0x6807, 0x9898] @ asc '' */'' @ [10] @
     asc ''                h1[id*="emoji"], h2[id*="emoji"], h3[id*="emoji"],'' @ [10] @
     asc ''                h1:contains("'' @ [0x1F4CB] @ asc ''"), h2:contains("'' @ [0x1F4DA] @ asc ''"), h3:contains("'' @ [0x1F4D8] @ asc ''") {'' @ [10] @
     asc ''                    font-family: '' @ [10] @
     asc ''                        "Segoe UI Emoji",'' @ [10] @
     asc ''                        "Apple Color Emoji", '' @ [10] @
     asc ''                        "Noto Color Emoji",'' @ [10] @
     asc ''                        "Symbola",'' @ [10] @
     asc ''                        "DejaVu Sans" !important;'' @ [10] @
     asc ''                }'' @ [10] @
     asc ''                '' @ [10] @
     asc ''                /* '' @ [0x9488, 0x5BF9, 0x7279, 0x5B9A] @ asc ''Emoji'' @ [0x7B26, 0x53F7, 0x7684, 0x7279, 0x6B8A, 0x5904, 0x7406] @ asc '' */'' @ [10] @
     asc ''                .emoji-special {'' @ [10] @
     asc ''                    font-family: '' @ [10] @
     asc ''                        "Segoe UI Emoji",'' @ [10] @
     asc ''                        "Apple Color Emoji", '' @ [10] @
     asc ''                        "Noto Color Emoji",'' @ [10] @
     asc ''                        "Symbola",'' @ [10] @
     asc ''                        "DejaVu Sans" !important;'' @ [10] @
     asc ''                    font-feature-settings: "liga" 1, "dlig" 1;'' @ [10] @
     asc ''                    -webkit-font-smoothing: antialiased;'' @ [10] @
     asc ''                    -moz-osx-font-smoothing: grayscale;'' @ [10] @
     asc ''                }'' @ [10] @
     asc ''                '' @ [10] @
     asc ''                /* '' @ [0x5F3A, 0x5236, 0x7279, 0x5B9A] @ asc ''Unicode'' @ [0x8303, 0x56F4, 0x4F7F, 0x7528] @ asc ''Emoji'' @ [0x5B57, 0x4F53] @ asc '' */'' @ [10] @
     asc ''                .unicode-emoji {'' @ [10] @
     asc ''                    font-family: "Segoe UI Emoji", "Apple Color Emoji", "Noto Color Emoji" !important;'' @ [10] @
     asc ''                }'' @ [10] @
     asc ''                '' @ [10] @
     asc ''                p {'' @ [10] @
     asc ''                    margin: 0 0 16px 0;'' @ [10] @
     asc ''                }'' @ [10] @
     asc ''                '' @ [10] @
     asc ''                code {'' @ [10] @
     asc ''                    background-color: #f6f8fa;'' @ [10] @
     asc ''                    padding: 2px 4px;'' @ [10] @
     asc ''                    border-radius: 3px;'' @ [10] @
     asc ''                    font-family: "SFMono-Regular", Consolas, "Liberation Mono", Menlo, monospace;'' @ [10] @
     asc ''                }'' @ [10] @
     asc ''                '' @ [10] @
     asc ''                pre {'' @ [10] @
     asc ''                    background-color: #f6f8fa;'' @ [10] @
     asc ''                    padding: 16px;'' @ [10] @
     asc ''                    border-radius: 6px;'' @ [10] @
     asc ''                    overflow-x: auto;'' @ [10] @
     asc ''                }'' @ [10] @
     asc ''                '' @ [10] @
     asc ''                table {'' @ [10] @
     asc ''                    border-collapse: collapse;'' @ [10] @
     asc ''                    margin: 16px 0;'' @ [10] @
     asc ''                    width: 100%;'' @ [10] @
     asc ''                }'' @ [10] @
     asc ''                '' @ [10] @
     asc ''                th, td {'' @ [10] @
     asc ''                    border: 1px solid #dfe2e5;'' @ [10] @
     asc ''                    padding: 6px 13px;'' @ [10] @
     asc ''                }'' @ [10] @
     asc ''                '' @ [10] @
     asc ''                th {'' @ [10] @
     asc ''                    background-color: #f6f8fa;'' @ [10] @
     asc ''                    font-weight: 600;'' @ [10] @
     asc ''                }'' @ [10] @
     asc ''                '' @ [10] @
     asc ''                blockquote {'' @ [10] @
     asc ''                    border-left: 4px solid #dfe2e5;'' @ [10] @
     asc ''                    padding: 0 16px;'' @ [10] @
     asc ''                    margin: 16px 0;'' @ [10] @
     asc ''                    color: #6a737d;'' @ [10] @
     asc ''                }'' @ [10] @
     asc ''                '' @ [10] @
     asc ''                ul, ol {'' @ [10] @
     asc ''                    padding-left: 24px;'' @ [10] @
     asc ''                }'' @ [10] @
     asc ''                '' @ [10] @
     asc ''                li {'' @ [10] @
     asc ''                    margin: 4px 0;'' @ [10] @
     asc ''                }'' @ [10] @
     asc ''                '' @ [10] @
     asc ''                /* '' @ [0x6570, 0x5B66, 0x516C, 0x5F0F, 0x6837, 0x5F0F] @ asc '' - '' @ [0x4F7F, 0x7528] @ asc ''Unicode'' @ [0x548C] @ asc ''CSS'' @ [0x6A21, 0x62DF] @ asc '' */'' @ [10] @
     asc ''                .math-inline, .math-display {'' @ [10] @
     asc ''                    font-family: "Cambria Math", "Lucida Bright", serif;'' @ [10] @
     asc ''                    font-size: 1.1em;'' @ [10] @
     asc ''                }'' @ [10] @
     asc ''                '' @ [10] @
     asc ''                .math-display {'' @ [10] @
     asc ''                    display: block;'' @ [10] @
     asc ''                    text-align: center;'' @ [10] @
     asc ''                    margin: 16px 0;'' @ [10] @
     asc ''                    padding: 10px;'' @ [10] @
     asc ''                    background-color: #f8f8f8;'' @ [10] @
     asc ''                    border-radius: 4px;'' @ [10] @
     asc ''                }'' @ [10] @
     asc ''                '' @ [10] @
     asc ''                /* '' @ [0x7279, 0x6B8A, 0x6570, 0x5B66, 0x7B26, 0x53F7, 0x7684] @ asc ''CSS'' @ [0x5904, 0x7406] @ asc '' */'' @ [10] @
     asc ''                .integral { font-size: 1.3em; vertical-align: middle; }'' @ [10] @
     asc ''                .sum-symbol { font-size: 1.4em; vertical-align: middle; }'' @ [10] @
     asc ''                .sqrt-symbol { text-decoration: overline; }'' @ [10] @
     asc ''                '' @ [10] @
     asc ''                /* '' @ [0x5206, 0x6570, 0x6837, 0x5F0F, 0x4F18, 0x5316] @ asc '' */'' @ [10] @
     asc ''                .fraction {'' @ [10] @
     asc ''                    display: inline-block;'' @ [10] @
     asc ''                    text-align: center;'' @ [10] @
     asc ''                    line-height: 1;'' @ [10] @
     asc ''                    vertical-align: middle;'' @ [10] @
     asc ''                }'' @ [10] @
     asc ''                '' @ [10] @
     asc ''                .numerator {'' @ [10] @
     asc ''                    display: block;'' @ [10] @
     asc ''                    border-bottom: 1px solid black;'' @ [10] @
     asc ''                }'' @ [10] @
     asc ''                '' @ [10] @
     asc ''                .subscript { '' @ [10] @
     asc ''                    font-size: 0.8em; '' @ [10] @
     asc ''                    vertical-align: sub; '' @ [10] @
     asc ''                }'' @ [10] @
     asc ''                '' @ [10] @
     asc ''                .superscript { '' @ [10] @
     asc ''                    font-size: 0.8em; '' @ [10] @
     asc ''                    vertical-align: super; '' @ [10] @
     asc ''                }'' @ [10] @
     asc ''                '' @ [10] @
     asc ''                /* '' @ [0x8FDE, 0x7EED, 0x4E0A, 0x4E0B, 0x6807, 0x6837, 0x5F0F] @ asc '' */'' @ [10] @
     asc ''                sub, sup {'' @ [10] @
     asc ''                    line-height: 0;'' @ [10] @
     asc ''                }'' @ [10] @
     asc ''                '' @ [10] @
     asc ''                /* Emoji'' @ [0x7279, 0x5B9A, 0x6837, 0x5F0F] @ asc '' */'' @ [10] @
     asc ''                .emoji-icon {'' @ [10] @
     asc ''                    display: inline-block;'' @ [10] @
     asc ''                    font-size: 1.2em;'' @ [10] @
     asc ''                    line-height: 1;'' @ [10] @
     asc ''                    vertical-align: middle;'' @ [10] @
     asc ''                }'' @ [10] @
     asc ''                '' @ [10] @
     asc ''                /* '' @ [0x9884, 0x52A0, 0x8F7D, 0x5173, 0x952E, 0x5B57, 0x7B26] @ asc '' */'' @ [10] @
     asc ''                .preload-emojis {'' @ [10] @
     asc ''                    display: none;'' @ [10] @
     asc ''                }'' @ [10] @
     asc ''            </style>'' @ [10] @
     asc ''        </head>'' @ [10] @
     asc ''        <body>'' @ [10] @
     asc ''            <!-- '' @ [0x9884, 0x52A0, 0x8F7D, 0x5173, 0x952E] @ asc ''Emoji'' @ [0x5B57, 0x7B26, 0x4EE5, 0x786E, 0x4FDD, 0x6B63, 0x786E, 0x6E32, 0x67D3] @ asc '' -->'' @ [10] @
     asc ''            <div class="preload-emojis">'' @ [10] @
     asc ''                &#x1F4CB;&#x1F4DA;&#x1F4D8;&#x2699;&#x1F393;&#x1F4BB;&#x2705;&#x274C;&#x1F504;&#x1F4CA;&#x1F4C1;&#x1F3AF;&#x1F4DD;&#x2728;&#x1F4DE;&#x1F4E7;&#x1F389;&#x1F60A;'' @ [10] @
     asc ''                ABCDEFGHIJKLMNOPQRSTUVWXYZabcdefghijklmnopqrstuvwxyz'' @ [10] @
     asc ''                0123456789!@#$%^&amp;*()_+-=[]{}|;'' @ [39] @ asc '':&quot;,./&lt;&gt;?'' @ [10] @
     asc ''            </div>'' @ [10] @
     asc ''            '' @
     html_content @
     [10] @
     asc ''        </body>'' @ [10] @
     asc ''        </html>'' @ [10] @
     asc ''        ''\<close>

definition create_header_footer_html :: "ustr \<Rightarrow> bool \<Rightarrow> ustr" where
  \<open>create_header_footer_html content is_header =
    (let css_class = (if is_header then asc ''header'' else asc ''footer'');
         position = (if is_header then asc ''top'' else asc ''bottom'')
     in
     [10] @
     asc ''        <!DOCTYPE html>'' @ [10] @
     asc ''        <html>'' @ [10] @
     asc ''        <head>'' @ [10] @
     asc ''            <meta charset="utf-8">'' @ [10] @
     asc ''            <style>'' @ [10] @
     asc ''                body { '' @ [10] @
     asc ''                    margin: 0; '' @ [10] @
     asc ''                    padding: 0; '' @ [10] @
     asc ''                    font-family: "Segoe UI Emoji", "Apple Color Emoji", "Noto Color Emoji",'' @ [10] @
     asc ''                                 Arial, "Microsoft YaHei", sans-serif;'' @ [10] @
     asc ''                }'' @ [10] @
     asc ''                .'' @
     css_class @
     asc '' { '' @ [10] @
     asc ''                    text-align: center; '' @ [10] @
     asc ''                    font-size: 12px; '' @ [10] @
     asc ''                    color: #666666;'' @ [10] @
     asc ''                    padding: 5px 10px;'' @ [10] @
     asc ''                    border-'' @
     position @
     asc '': 1px solid #cccccc;'' @ [10] @
     asc ''                    background-color: #f9f9f9;'' @ [10] @
     asc ''                    margin: 0;'' @ [10] @
     asc ''                    width: 100%;'' @ [10] @
     asc ''                    box-sizing: border-box;'' @ [10] @
     asc ''                    height: 25px;'' @ [10] @
     asc ''                    line-height: 15px;'' @ [10] @
     asc ''                }'' @ [10] @
     asc ''            </style>'' @ [10] @
     asc ''        </head>'' @ [10] @
     asc ''        <body>'' @ [10] @
     asc ''            <div class="'' @
     css_class @
     asc ''">'' @
     content @
     asc ''</div>'' @ [10] @
     asc ''        </body>'' @ [10] @
     asc ''        </html>'' @ [10] @
     asc ''        '')\<close>

text \<open>
  A Python dictionary whose order of insertion matters to its reader is an association
  list; \<open>dict_set\<close> is \<open>d[k] = v\<close>.
\<close>

fun dict_set :: "('k \<times> 'v) list \<Rightarrow> 'k \<Rightarrow> 'v \<Rightarrow> ('k \<times> 'v) list" where
  "dict_set [] k v = [(k, v)]"
| "dict_set ((k', v') # d) k v = (if k' = k then (k, v) # d else (k', v') # dict_set d k v)"

text \<open>The truth value of an optional path: neither \<open>None\<close> nor the empty string.\<close>

fun truthy :: "ustr option \<Rightarrow> bool" where
  "truthy None = False"
| "truthy (Some p) = (p \<noteq> [])"

definition create_pdf_options ::
    "convert_thread \<Rightarrow> ustr option \<Rightarrow> ustr option \<Rightarrow> (ustr \<times> optval) list" where
  "create_pdf_options self header_path footer_path =
    (let margins_top = str_int (m_top (margin_spinboxes self)) @ asc ''mm'';
         margins_right = str_int (m_right (margin_spinboxes self)) @ asc ''mm'';
         margins_bottom = str_int (m_bottom (margin_spinboxes self)) @ asc ''mm'';
         margins_left = str_int (m_left (margin_spinboxes self)) @ asc ''mm'';
         options =
           [(asc ''page-size'', S (page_size_combo self)),
            (asc ''margin-top'', S margins_top),
            (asc ''margin-right'', S margins_right),
            (asc ''margin-bottom'', S margins_bottom),
            (asc ''margin-left'', S margins_left),
            (asc ''encoding'', S (encoding_combo self)),
            (asc ''enable-local-file-access'', B True),
            (asc ''disable-external-links'', B True),
            (asc ''disable-internal-links'', B True),
            (asc ''no-images'', B False),
            (asc ''disable-javascript'', B True),
            (asc ''header-spacing'', S (asc ''5'')),
            (asc ''footer-spacing'', S (asc ''5'')),
            (asc ''footer-right'', S (asc ''[page]/[toPage]'')),
            (asc ''footer-font-size'', S (asc ''10''))];
         options = (if truthy header_path
                    then dict_set options (asc ''header-html'') (S (the header_path))
                    else options);
         options = (if truthy footer_path
                    then dict_set options (asc ''footer-html'') (S (the footer_path))
                    else options)
     in options)"

section \<open>Temporary files\<close>

text \<open>
  \<open>os.path.exists\<close> is membership in \<open>files\<close>; a successful \<open>os.remove\<close> takes
  the path out, a failed one leaves the disk as it was and logs a warning.
  \<open>remove_temp_file\<close> is the body of the loop of \<open>cleanup_temp_files\<close>.
\<close>

definition remove_temp_file :: "world \<Rightarrow> ustr option \<Rightarrow> state \<Rightarrow> state" where
  "remove_temp_file w temp_file s =
     (if truthy temp_file \<and> the temp_file \<in> files s
      then (case os_remove w (the temp_file) of
              None \<Rightarrow> s\<lparr>files := files s - {the temp_file}\<rparr>
            | Some e \<Rightarrow>
                logger WARNING
                  ([0x6E05, 0x7406, 0x4E34, 0x65F6, 0x6587, 0x4EF6, 0x5931, 0x8D25] @ asc '' ''
                   @ the temp_file @ asc '': '' @ e) s)
      else s)"

fun cleanup_temp_files :: "world \<Rightarrow> ustr option list \<Rightarrow> state \<Rightarrow> state" where
  "cleanup_temp_files w [] s = s"
| "cleanup_temp_files w (temp_file # temp_files) s =
     cleanup_temp_files w temp_files (remove_temp_file w temp_file s)"

definition write_text :: "world \<Rightarrow> ustr \<Rightarrow> ustr \<Rightarrow> state \<Rightarrow> (ustr + unit) \<times> state" where
  "write_text w path content s =
     (case open_write w path content of
        Written \<Rightarrow> (Inr (), s\<lparr>files := insert path (files s)\<rparr>)
      | OpenFailed e \<Rightarrow> (Inl e, s)
      | WriteFailed e \<Rightarrow> (Inl e, s\<lparr>files := insert path (files s)\<rparr>))"

section \<open>The progress value\<close>

text \<open>
  \<open>int((i / total_files) * 100)\<close> is computed in binary64. A positive finite double
  is a pair \<open>(m, e)\<close> standing for \<open>m * 2 ^ e\<close>. \<open>to_double a b\<close> is the double
  nearest to the positive rational \<open>a / b\<close>, ties to even, with a 53-bit significand;
  the values here lie between \<open>2 ^ - 63\<close> and 100, so neither subnormal numbers nor
  overflow arise. Python's true division of two integers is correctly rounded, and so is
  the product of two doubles.
\<close>

function bitlen :: "int \<Rightarrow> int" where
  "bitlen n = (if n \<le> 0 then 0 else 1 + bitlen (n div 2))"
  by pat_completeness auto
termination
  by (relation "measure nat") auto

declare bitlen.simps [simp del]

definition rne_div :: "int \<Rightarrow> int \<Rightarrow> int" where
  "rne_div a b =
     (let q = a div b; r = a mod b
      in if 2 * r < b then q else if b < 2 * r then q + 1 else if even q then q else q + 1)"

type_synonym double = "int \<times> int"

definition scaled :: "int \<Rightarrow> int \<Rightarrow> int \<Rightarrow> int \<times> int" where
  "scaled a b e = (if e < 0 then (a * 2 ^ nat (- e), b) else (a, b * 2 ^ nat e))"

definition to_double :: "int \<Rightarrow> int \<Rightarrow> double" where
  "to_double a b =
     (let e0 = bitlen a - bitlen b - 53;
          e = (if fst (scaled a b e0) \<ge> snd (scaled a b e0) * 2 ^ 53 then e0 + 1 else e0)
      in (rne_div (fst (scaled a b e)) (snd (scaled a b e)), e))"

definition py_truediv :: "nat \<Rightarrow> nat \<Rightarrow> double" where
  "py_truediv i n = to_double (int i) (int n)"

definition py_fmul :: "double \<Rightarrow> double \<Rightarrow> double" where
  "py_fmul x y =
     (let m = fst x * fst y; e = snd x + snd y
      in if e < 0 then to_double m (2 ^ nat (- e)) else to_double (m * 2 ^ nat e) 1)"

definition py_int :: "double \<Rightarrow> int" where
  "py_int x = (if snd x < 0 then fst x div 2 ^ nat (- snd x) else fst x * 2 ^ nat (snd x))"

section \<open>\<open>ConvertThread.run\<close>\<close>

definition download_wkhtmltopdf :: "ustr" where
  "download_wkhtmltopdf =
    (let download_url = asc ''https://wkhtmltopdf.org/downloads.html''
     in
     [0x672A, 0x627E, 0x5230] @ asc ''wkhtmltopdf'' @ [0x5DE5, 0x5177, 0xFF01, 10] @
     [10] @
     [0x8BF7, 0x6309, 0x7167, 0x4EE5, 0x4E0B, 0x6B65, 0x9AA4, 0x64CD, 0x4F5C, 0xFF1A, 10] @
     asc ''1. '' @ [0x8BBF, 0x95EE, 0x5B98, 0x65B9, 0x4E0B, 0x8F7D, 0x9875, 0x9762, 0xFF1A] @
     download_url @
     [10] @
     asc ''2. '' @ [0x6839, 0x636E, 0x60A8, 0x7684, 0x7CFB, 0x7EDF, 0x9009, 0x62E9, 0x5408, 0x9002, 0x7684, 0x7248, 0x672C, 0x4E0B, 0x8F7D, 10] @
     asc ''3. '' @ [0x5B89, 0x88C5, 0x65F6, 0x5EFA, 0x8BAE, 0x9009, 0x62E9, 0x5B8C, 0x6574, 0x7248, 0xFF08, 0x5305, 0x542B] @ asc ''GUI'' @ [0x7EC4, 0x4EF6, 0xFF09, 10] @
     asc ''4. '' @ [0x5B89, 0x88C5, 0x5B8C, 0x6210, 0x540E, 0x91CD, 0x542F, 0x672C, 0x7A0B, 0x5E8F, 10] @
     asc ''5. '' @ [0x6216, 0x8005, 0x624B, 0x52A8, 0x6307, 0x5B9A] @ asc ''wkhtmltopdf.exe'' @ [0x7684, 0x8DEF, 0x5F84, 10] @
     [10] @
     [0x5E38, 0x89C1, 0x5B89, 0x88C5, 0x8DEF, 0x5F84, 0xFF1A, 10] @
     asc ''- C:'' @ [92] @ asc ''Program Files'' @ [92] @ asc ''wkhtmltopdf'' @ [92] @ asc ''bin'' @ [92] @ asc ''wkhtmltopdf.exe'' @ [10] @
     asc ''- C:'' @ [92] @ asc ''Program Files (x86)'' @ [92] @ asc ''wkhtmltopdf'' @ [92] @ asc ''bin'' @ [92] @ asc ''wkhtmltopdf.exe'' @ [10] @
     [10] @
     [0x6CE8, 0x610F, 0xFF1A, 0x9700, 0x8981, 0x4E0B, 0x8F7D, 0x5305, 0x542B] @ asc ''GUI'' @ [0x7EC4, 0x4EF6, 0x7684, 0x5B8C, 0x6574, 0x7248, 0x672C, 0x3002])"

text \<open>
  The body of the \<open>try\<close> statement of the loop, up to the exception that leaves it:
  the values of \<open>header_path\<close> and \<open>footer_path\<close> at that point, and either
  \<open>Inr ()\<close> when the body ran to its end or \<open>Inl (str e)\<close> for the exception.
\<close>

definition try_block ::
    "world \<Rightarrow> convert_thread \<Rightarrow> nat \<Rightarrow> nat \<Rightarrow> ustr \<Rightarrow> state
     \<Rightarrow> (ustr option \<times> ustr option \<times> (ustr + unit)) \<times> state" where
  "try_block w self total_files i file_path s =
    (let file_name = os_path_basename w file_path;
         output_filename = fst (os_path_splitext w file_name) @ asc ''.pdf'';
         output_path = os_path_abspath w (os_path_join w (output_dir self) output_filename);
         s = emit (LogMessage (asc ''['' @ str_nat i @ asc ''/'' @ str_nat total_files @ asc ''] ''
                     @ [0x6B63, 0x5728, 0x5904, 0x7406] @ asc '': '' @ file_name)) s
     in case open_read w file_path of
          Inl e \<Rightarrow> ((None, None, Inl e), s)
        | Inr original_markdown \<Rightarrow>
           (let (html_content, s) = convert_markdown_with_math w self original_markdown s;
                header = py_strip (header_edit self);
                footer = py_strip (footer_edit self);
                header_path =
                  (if header \<noteq> []
                   then Some (os_path_join w (output_dir self)
                                (asc ''header_temp_'' @ str_nat i @ asc ''.html''))
                   else None);
                (r, s) = (case header_path of
                            None \<Rightarrow> (Inr (), s)
                          | Some p \<Rightarrow> write_text w p (create_header_footer_html header True) s)
            in case r of
                 Inl e \<Rightarrow> ((header_path, None, Inl e), s)
               | Inr u \<Rightarrow>
                  (let footer_path =
                         (if footer \<noteq> []
                          then Some (os_path_join w (output_dir self)
                                       (asc ''footer_temp_'' @ str_nat i @ asc ''.html''))
                          else None);
                       (r, s) = (case footer_path of
                                   None \<Rightarrow> (Inr (), s)
                                 | Some p \<Rightarrow>
                                     write_text w p (create_header_footer_html footer False) s)
                   in case r of
                        Inl e \<Rightarrow> ((header_path, footer_path, Inl e), s)
                      | Inr u \<Rightarrow>
                         (let html_template = create_html_template html_content;
                              options = create_pdf_options self header_path footer_path
                          in case from_string w html_template output_path options of
                               PdfWritten \<Rightarrow>
                                 ((header_path, footer_path, Inr ()),
                                  emit (LogMessage ([0x2713] @ asc '' ''
                                          @ [0x6210, 0x529F, 0x751F, 0x6210] @ asc '': ''
                                          @ output_filename))
                                    (s\<lparr>files := insert output_path (files s)\<rparr>))
                             | PdfFailed e kept \<Rightarrow>
                                 ((header_path, footer_path, Inl e),
                                  if kept then s\<lparr>files := insert output_path (files s)\<rparr>
                                  else s)))))"

text \<open>
  One iteration of the loop: the \<open>try\<close> body, the handler (which ends in
  \<open>continue\<close>), the \<open>finally\<close> clause, and the progress update that follows the
  statement.
\<close>

definition loop_body :: "world \<Rightarrow> convert_thread \<Rightarrow> nat \<Rightarrow> nat \<Rightarrow> ustr \<Rightarrow> state \<Rightarrow> state" where
  "loop_body w self total_files i file_path s =
    (case try_block w self total_files i file_path s of
       ((header_path, footer_path, Inr u), s) \<Rightarrow>
         (let s = cleanup_temp_files w [header_path, footer_path] s;
              progress = py_int (py_fmul (py_truediv i total_files) (100, 0))
          in emit (Progress progress) s)
     | ((header_path, footer_path, Inl e), s) \<Rightarrow>
         (let file_name = os_path_basename w file_path;
              error_msg = [0x5904, 0x7406, 0x6587, 0x4EF6] @ asc '' '' @ file_name @ asc '' ''
                          @ [0x65F6, 0x51FA, 0x9519] @ asc '': '' @ e;
              s = emit (LogMessage ([0x2717] @ asc '' '' @ error_msg)) s;
              s = logger ERROR error_msg s
          in cleanup_temp_files w [header_path, footer_path] s))"

text \<open>\<open>for i, file_path in enumerate(files_to_process, 1)\<close>, from the index \<open>i\<close> on.\<close>

fun convert_loop ::
    "world \<Rightarrow> convert_thread \<Rightarrow> nat \<Rightarrow> nat \<Rightarrow> ustr list \<Rightarrow> state \<Rightarrow> state" where
  "convert_loop w self total_files i [] s = s"
| "convert_loop w self total_files i (file_path # rest) s =
     convert_loop w self total_files (Suc i) rest (loop_body w self total_files i file_path s)"

text \<open>
  No statement of the outer \<open>try\<close> raises in this model (every exception of the loop
  body is handled inside it), so its handler has no branch here.
\<close>

definition run :: "world \<Rightarrow> convert_thread \<Rightarrow> state \<Rightarrow> state" where
  "run w self s =
    (let (is_valid, validation_msg) = validate_wkhtmltopdf w
     in if \<not> is_valid
        then emit (Error (asc ''wkhtmltopdf'' @ [0x9A8C, 0x8BC1, 0x5931, 0x8D25, 0xFF1A]
                     @ validation_msg @ [10, 10] @ download_wkhtmltopdf)) s
        else
          (let (files_to_process, total_files, s) =
                 (case input_files self of
                    SingleFile f \<Rightarrow>
                      ([f], 1,
                       emit (LogMessage ([0x5F00, 0x59CB, 0x8F6C, 0x6362, 0x5355, 0x4E2A,
                               0x6587, 0x4EF6] @ asc ''...'')) s)
                  | FileList fs \<Rightarrow>
                      (fs, length fs,
                       emit (LogMessage ([0x5F00, 0x59CB, 0x8F6C, 0x6362] @ asc '' ''
                               @ str_nat (length fs) @ asc '' ''
                               @ [0x4E2A, 0x6587, 0x4EF6] @ asc ''...'')) s))
           in if total_files = 0
              then emit (Error [0x6CA1, 0x6709, 0x627E, 0x5230, 0x8981, 0x8F6C, 0x6362, 0x7684,
                           0x6587, 0x4EF6, 0xFF01]) s
              else
                (let s = convert_loop w self total_files 1 files_to_process s;
                     s = emit (LogMessage [0x8F6C, 0x6362, 0x5B8C, 0x6210, 0xFF01]) s
                 in emit Finished s)))"


section \<open>Names for what the theorems speak of\<close>

text \<open>
  The list the loop runs over, the messages of the log, and the values the \<open>try\<close>
  body leaves behind; \<open>fst (try_block \<dots>)\<close> does not depend on the state it starts
  from (lemma \<open>try_block_result\<close>), so \<open>job_result\<close> takes it from the empty one.
\<close>

definition files_to_process :: "convert_thread \<Rightarrow> ustr list" where
  "files_to_process self = (case input_files self of SingleFile f \<Rightarrow> [f] | FileList fs \<Rightarrow> fs)"

definition start_message :: "convert_thread \<Rightarrow> ustr" where
  "start_message self =
     (case input_files self of
        SingleFile f \<Rightarrow>
          [0x5F00, 0x59CB, 0x8F6C, 0x6362, 0x5355, 0x4E2A, 0x6587, 0x4EF6] @ asc ''...''
      | FileList fs \<Rightarrow>
          [0x5F00, 0x59CB, 0x8F6C, 0x6362] @ asc '' '' @ str_nat (length fs) @ asc '' ''
          @ [0x4E2A, 0x6587, 0x4EF6] @ asc ''...'')"

definition done_message :: "ustr" where
  "done_message = [0x8F6C, 0x6362, 0x5B8C, 0x6210, 0xFF01]"

definition processing_message :: "world \<Rightarrow> nat \<Rightarrow> nat \<Rightarrow> ustr \<Rightarrow> ustr" where
  "processing_message w total_files i file_path =
     asc ''['' @ str_nat i @ asc ''/'' @ str_nat total_files @ asc ''] ''
     @ [0x6B63, 0x5728, 0x5904, 0x7406] @ asc '': '' @ os_path_basename w file_path"

definition success_message :: "world \<Rightarrow> ustr \<Rightarrow> ustr" where
  "success_message w file_path =
     [0x2713] @ asc '' '' @ [0x6210, 0x529F, 0x751F, 0x6210] @ asc '': ''
     @ fst (os_path_splitext w (os_path_basename w file_path)) @ asc ''.pdf''"

definition error_message :: "world \<Rightarrow> ustr \<Rightarrow> ustr \<Rightarrow> ustr" where
  "error_message w file_path e =
     [0x5904, 0x7406, 0x6587, 0x4EF6] @ asc '' '' @ os_path_basename w file_path @ asc '' ''
     @ [0x65F6, 0x51FA, 0x9519] @ asc '': '' @ e"

definition cleanup_warning :: "ustr \<Rightarrow> ustr \<Rightarrow> ustr" where
  "cleanup_warning temp_file e =
     [0x6E05, 0x7406, 0x4E34, 0x65F6, 0x6587, 0x4EF6, 0x5931, 0x8D25] @ asc '' ''
     @ temp_file @ asc '': '' @ e"

definition empty_state :: state where
  "empty_state = \<lparr>files = {}, signals = [], logged = []\<rparr>"

definition job_result ::
    "world \<Rightarrow> convert_thread \<Rightarrow> nat \<Rightarrow> nat \<Rightarrow> ustr \<Rightarrow> ustr option \<times> ustr option \<times> (ustr + unit)" where
  "job_result w self total_files i file_path =
     fst (try_block w self total_files i file_path empty_state)"

definition job_outcome :: "world \<Rightarrow> convert_thread \<Rightarrow> nat \<Rightarrow> nat \<Rightarrow> ustr \<Rightarrow> ustr + unit" where
  "job_outcome w self total_files i file_path =
     snd (snd (job_result w self total_files i file_path))"

text \<open>
  What a write returns and whether it leaves the file on disk, and the HTML of a document;
  neither depends on the state (lemmas \<open>write_text_normal\<close> and
  \<open>convert_markdown_normal\<close>).
\<close>

definition write_outcome :: "world \<Rightarrow> ustr \<Rightarrow> ustr \<Rightarrow> ustr + unit" where
  "write_outcome w path content =
     (case open_write w path content of
        Written \<Rightarrow> Inr () | OpenFailed e \<Rightarrow> Inl e | WriteFailed e \<Rightarrow> Inl e)"

definition write_creates :: "world \<Rightarrow> ustr \<Rightarrow> ustr \<Rightarrow> bool" where
  "write_creates w path content =
     (case open_write w path content of
        Written \<Rightarrow> True | OpenFailed e \<Rightarrow> False | WriteFailed e \<Rightarrow> True)"

definition converted_html :: "world \<Rightarrow> convert_thread \<Rightarrow> ustr \<Rightarrow> ustr" where
  "converted_html w self original_markdown =
     fst (convert_markdown_with_math w self original_markdown empty_state)"

definition progress_value :: "nat \<Rightarrow> nat \<Rightarrow> int" where
  "progress_value i total_files = py_int (py_fmul (py_truediv i total_files) (100, 0))"

text \<open>
  The signals of one file as the specification describes them: the line that announces the
  file, then either the line of success and the progress, or the line of failure.
\<close>

definition job_signals :: "world \<Rightarrow> convert_thread \<Rightarrow> nat \<Rightarrow> nat \<Rightarrow> ustr \<Rightarrow> event list" where
  "job_signals w self total_files i file_path =
     LogMessage (processing_message w total_files i file_path)
     # (case job_outcome w self total_files i file_path of
          Inr u \<Rightarrow> [LogMessage (success_message w file_path),
                    Progress (progress_value i total_files)]
        | Inl e \<Rightarrow> [LogMessage ([0x2717] @ asc '' '' @ error_message w file_path e)])"

text \<open>
  The progress the specification asks for: \<open>round(completedCount / totalCount * 100)\<close>
  over the reals.
\<close>

definition spec_progress :: "nat \<Rightarrow> nat \<Rightarrow> int" where
  "spec_progress completedCount totalCount =
     round (real completedCount / real totalCount * 100)"

fun progress_values :: "event list \<Rightarrow> int list" where
  "progress_values [] = []"
| "progress_values (Progress p # es) = p # progress_values es"
| "progress_values (e # es) = progress_values es"

text \<open>
  The entries of the symbol table as the specification lists them: the name of the command
  and the text it stands for.
\<close>

definition symbol_table :: "(string \<times> ustr) list" where
  "symbol_table =
    [(''int'', [0x222B]), (''sum'', [0x2211]), (''prod'', [0x220F]), (''infty'', [0x221E]),
     (''pm'', [0xB1]), (''times'', [0xD7]), (''cdot'', [0xB7]), (''leq'', [0x2264]),
     (''geq'', [0x2265]), (''neq'', [0x2260]), (''approx'', [0x2248]),
     (''sin'', asc ''sin''), (''cos'', asc ''cos''), (''tan'', asc ''tan''),
     (''log'', asc ''log''), (''ln'', asc ''ln''), (''lim'', asc ''lim''),
     (''partial'', [0x2202]), (''rightarrow'', [0x2192]), (''to'', [0x2192]),
     (''in'', [0x2208]), (''subset'', [0x2282]), (''cup'', [0x222A]), (''cap'', [0x2229]),
     (''sqrt'', [0x221A]),
     (''alpha'', [0x3B1]), (''beta'', [0x3B2]), (''gamma'', [0x3B3]), (''delta'', [0x3B4]),
     (''theta'', [0x3B8]), (''lambda'', [0x3BB]), (''mu'', [0x3BC]), (''pi'', [0x3C0]),
     (''sigma'', [0x3C3]), (''phi'', [0x3C6]), (''omega'', [0x3C9]),
     (''det'', asc ''det'')]"

section \<open>Concrete environments\<close>

text \<open>
  An environment in which the tool is present, \<open>/in/missing.md\<close> cannot be read, and
  the footer fragment of the first file cannot be removed; paths are joined with a slash.
\<close>

definition example_world :: world where
  "example_world =
     \<lparr>unicode_decimal = (\<lambda>c. False),
      markdown_toc = (\<lambda>s. Inr (asc ''<p>'' @ s @ asc ''</p>'')),
      markdown_plain = (\<lambda>s. Inr (asc ''<p>'' @ s @ asc ''</p>'')),
      validate_wkhtmltopdf = (True, asc ''wkhtmltopdf 0.12.6''),
      os_path_basename = (\<lambda>p. rev (takeWhile (\<lambda>c. c \<noteq> 47) (rev p))),
      os_path_splitext = (\<lambda>p. (takeWhile (\<lambda>c. c \<noteq> 46) p, dropWhile (\<lambda>c. c \<noteq> 46) p)),
      os_path_join = (\<lambda>a b. a @ 47 # b),
      os_path_abspath = (\<lambda>p. p),
      open_read = (\<lambda>p. if p = asc ''/in/missing.md'' then Inl (asc ''No such file'')
                       else Inr (asc ''text'')),
      open_write = (\<lambda>p c. Written),
      from_string = (\<lambda>html p options. PdfWritten),
      os_remove = (\<lambda>p. if p = asc ''/out/footer_temp_1.html''
                       then Some (asc ''Permission denied'') else None)\<rparr>"

definition example_thread :: convert_thread where
  "example_thread =
     \<lparr>input_files = FileList [asc ''/in/a.md'', asc ''/in/missing.md'', asc ''/in/c.md''],
      output_dir = asc ''/out'',
      header_edit = asc ''Report'',
      footer_edit = asc ''Draft'',
      page_size_combo = asc ''A4'',
      margin_spinboxes = \<lparr>m_top = 20, m_right = 15, m_bottom = 20, m_left = 15\<rparr>,
      encoding_combo = asc ''UTF-8'',
      is_batch_mode = True\<rparr>"

section \<open>Evaluation and helper lemmas\<close>

lemmas math_defs = simplify_math_formula_def replacements_def asc_def lit_def sub_sup_def
  sup_sub_def group_def frac_command_replacer_def sum_replacer_def int_replacer_def
  sqrt_replacer_def Let_def

lemma first_match_cong [cong]: "ns = ns' \<Longrightarrow> first_match ns f = first_match ns' f"
  by simp

lemma map_of_dict_set:
  "map_of (dict_set d k v) k' = (if k' = k then Some v else map_of d k')"
  by (induction d k v rule: dict_set.induct) auto

lemmas float_defs = progress_value_def py_int_def py_fmul_def py_truediv_def to_double_def
  scaled_def rne_div_def bitlen.simps

lemma emit_simps [simp]:
  "signals (emit e s) = signals s @ [e]" "files (emit e s) = files s"
  "logged (emit e s) = logged s"
  by (simp_all add: emit_def)

lemma logger_simps [simp]:
  "signals (logger l m s) = signals s" "files (logger l m s) = files s"
  "logged (logger l m s) = logged s @ [(l, m)]"
  by (simp_all add: logger_def)

lemma convert_markdown_normal:
  "convert_markdown_with_math w self md s =
     (converted_html w self md, snd (convert_markdown_with_math w self md s))"
  by (simp add: convert_markdown_with_math_def converted_html_def split: sum.splits)

lemma convert_markdown_state [simp]:
  "signals (snd (convert_markdown_with_math w self md s)) = signals s"
  "files (snd (convert_markdown_with_math w self md s)) = files s"
  by (simp_all add: convert_markdown_with_math_def split: sum.splits)

lemma write_text_normal:
  "write_text w p c s =
     (write_outcome w p c,
      s\<lparr>files := (if write_creates w p c then insert p (files s) else files s)\<rparr>)"
  by (simp add: write_text_def write_outcome_def write_creates_def split: write_result.splits)

lemma try_block_result:
  "fst (try_block w self n i f s) = job_result w self n i f"
  unfolding job_result_def try_block_def
  apply (subst (1 2) convert_markdown_normal)
  apply (simp add: write_text_normal Let_def split: sum.split pdf_result.split)
  done

lemma try_block_signals:
  "signals (snd (try_block w self n i f s)) =
     signals s @ LogMessage (processing_message w n i f)
       # (case job_outcome w self n i f of
            Inr u \<Rightarrow> [LogMessage (success_message w f)]
          | Inl e \<Rightarrow> [])"
  unfolding job_outcome_def job_result_def try_block_def
  apply (subst (1 2) convert_markdown_normal)
  apply (simp add: write_text_normal Let_def processing_message_def success_message_def
      split: sum.split pdf_result.split)
  done

section \<open>The claims\<close>

text \<open>
  C1. The claim: every block-math span \<open>$$...$$\<close> is wrapped in the
  \<open>math-display\<close> container, the block pattern being applied to the raw source and
  the inline pattern in a second pass. The code applies the inline pattern first, so each
  \<open>$$\<close> is consumed as an inline span with an empty formula and the block pattern
  finds nothing: on \<open>$$x$$\<close> the substituted source is two empty
  \<open>math-inline\<close> spans around an untouched \<open>x\<close>.
\<close>

theorem block_math_becomes_inline_spans:
  \<open>processed_content w self (asc ''$$x$$'')
     = asc ''<span class="math-inline"></span>x<span class="math-inline"></span>''\<close>
  by (simp add: processed_content_def inline_pattern_def block_pattern_def
      inline_math_replacer_def block_math_replacer_def math_defs cong: let_weak_cong)

text \<open>
  C5. Whatever the configuration and the header and footer paths, the options for the
  renderer disable JavaScript and external and internal links, enable local file access,
  and set the header and footer spacing to 5, the right footer field to
  \<open>[page]/[toPage]\<close> and the footer font size to 10.
\<close>

theorem create_pdf_options_fixed_entries:
  "map_of (create_pdf_options self header_path footer_path) (asc ''disable-javascript'')
     = Some (B True)
   \<and> map_of (create_pdf_options self header_path footer_path) (asc ''disable-external-links'')
     = Some (B True)
   \<and> map_of (create_pdf_options self header_path footer_path) (asc ''disable-internal-links'')
     = Some (B True)
   \<and> map_of (create_pdf_options self header_path footer_path) (asc ''enable-local-file-access'')
     = Some (B True)
   \<and> map_of (create_pdf_options self header_path footer_path) (asc ''header-spacing'')
     = Some (S (asc ''5''))
   \<and> map_of (create_pdf_options self header_path footer_path) (asc ''footer-spacing'')
     = Some (S (asc ''5''))
   \<and> map_of (create_pdf_options self header_path footer_path) (asc ''footer-right'')
     = Some (S (asc ''[page]/[toPage]''))
   \<and> map_of (create_pdf_options self header_path footer_path) (asc ''footer-font-size'')
     = Some (S (asc ''10''))"
  by (simp add: create_pdf_options_def Let_def map_of_dict_set asc_def)

text \<open>
  C8. The claim: a formula such as \<open>H_2O\<close> is rewritten to its form with Unicode
  subscripts by the chemical table applied last. The generic rule for a one-character
  subscript runs before that table, so the underscore is gone when the table is reached,
  and each of the five formulas comes out with a \<open>sub\<close> element instead.
\<close>

theorem chemical_formulas_get_generic_subscripts:
  "simplify_math_formula w self (asc ''H_2O'') = asc ''H<sub>2</sub>O''
   \<and> simplify_math_formula w self (asc ''H_2'') = asc ''H<sub>2</sub>''
   \<and> simplify_math_formula w self (asc ''O_2'') = asc ''O<sub>2</sub>''
   \<and> simplify_math_formula w self (asc ''CH_4'') = asc ''CH<sub>4</sub>''
   \<and> simplify_math_formula w self (asc ''CO_2'') = asc ''CO<sub>2</sub>''"
  by (simp add: math_defs cong: let_weak_cong)

end
